theory Spec2Isabelle
  imports Main "HOL-Library.Sublist"
begin

section \<open>JavaScript strings\<close>

text \<open>
  A JavaScript string is a sequence of UTF-16 code units, and \<open>length\<close>, \<open>includes\<close>,
  \<open>split\<close> and the regular expressions of the source (none carries the \<open>u\<close> flag) all
  work on code units. A string is therefore a list of code units, each a natural number.
  \<open>str\<close> turns an ASCII literal into such a list.

  The character classes are those of ECMAScript: \<open>\s\<close> and \<open>trim\<close> use WhiteSpace together
  with LineTerminator, \<open>^\<close> and \<open>$\<close> under the \<open>m\<close> flag look for a LineTerminator, and
  \<open>\w\<close> is \<open>[A-Za-z0-9_]\<close>.

  Case mapping is modelled unit by unit. It is exact for every code unit below 256 (the
  Latin-1 range), and for the two units above it that upper-casing a Latin-1 letter can
  produce; the Unicode case tables beyond that range are not part of the repository and
  those units are left unchanged.
\<close>

type_synonym jsstring = "nat list"

definition str :: "string \<Rightarrow> jsstring" where
  "str s = map of_char s"

definition isWhiteSpace :: "nat \<Rightarrow> bool" where
  "isWhiteSpace c \<longleftrightarrow>
     c = 9 \<or> c = 10 \<or> c = 11 \<or> c = 12 \<or> c = 13 \<or> c = 32 \<or> c = 160 \<or> c = 5760 \<or>
     (8192 \<le> c \<and> c \<le> 8202) \<or> c = 8232 \<or> c = 8233 \<or> c = 8239 \<or> c = 8287 \<or>
     c = 12288 \<or> c = 65279"

definition isLineTerminator :: "nat \<Rightarrow> bool" where
  "isLineTerminator c \<longleftrightarrow> c = 10 \<or> c = 13 \<or> c = 8232 \<or> c = 8233"

definition isWordChar :: "nat \<Rightarrow> bool" where
  "isWordChar c \<longleftrightarrow>
     (48 \<le> c \<and> c \<le> 57) \<or> (65 \<le> c \<and> c \<le> 90) \<or> c = 95 \<or> (97 \<le> c \<and> c \<le> 122)"

definition trimStart :: "jsstring \<Rightarrow> jsstring" where
  "trimStart s = dropWhile isWhiteSpace s"

definition trimEnd :: "jsstring \<Rightarrow> jsstring" where
  "trimEnd s = rev (dropWhile isWhiteSpace (rev s))"

definition js_trim :: "jsstring \<Rightarrow> jsstring" where
  "js_trim s = trimStart (trimEnd s)"

definition lowerUnit :: "nat \<Rightarrow> nat" where
  "lowerUnit c =
     (if 65 \<le> c \<and> c \<le> 90 then c + 32
      else if 192 \<le> c \<and> c \<le> 222 \<and> c \<noteq> 215 then c + 32
      else if c = 376 then 255
      else if c = 924 then 956
      else c)"

definition toLowerCase :: "jsstring \<Rightarrow> jsstring" where
  "toLowerCase s = map lowerUnit s"

text \<open>\<open>toUpperCase\<close> of one code unit; the sharp s becomes two units.\<close>

definition upperUnit :: "nat \<Rightarrow> jsstring" where
  "upperUnit c =
     (if 97 \<le> c \<and> c \<le> 122 then [c - 32]
      else if 224 \<le> c \<and> c \<le> 254 \<and> c \<noteq> 247 then [c - 32]
      else if c = 181 then [924]
      else if c = 223 then [83, 83]
      else if c = 255 then [376]
      else [c])"

text \<open>\<open>s.includes(sub)\<close> and \<open>s.startsWith(sub)\<close> (the latter is \<open>prefix sub s\<close>).\<close>

fun js_includes :: "jsstring \<Rightarrow> jsstring \<Rightarrow> bool" where
  "js_includes [] sub = (sub = [])"
| "js_includes (c # cs) sub = (prefix sub (c # cs) \<or> js_includes cs sub)"

text \<open>\<open>s.split(sep)\<close> for a separator of one code unit: never an empty array.\<close>

fun js_split :: "nat \<Rightarrow> jsstring \<Rightarrow> jsstring list" where
  "js_split sep [] = [[]]"
| "js_split sep (c # cs) =
     (if c = sep then [] # js_split sep cs
      else (case js_split sep cs of
              [] \<Rightarrow> [[c]]
            | piece # pieces \<Rightarrow> (c # piece) # pieces))"

text \<open>\<open>parts.join(sep)\<close> for a separator of one code unit.\<close>

fun js_join :: "nat \<Rightarrow> jsstring list \<Rightarrow> jsstring" where
  "js_join sep [] = []"
| "js_join sep [piece] = piece"
| "js_join sep (piece # pieces) = piece @ sep # js_join sep pieces"

text \<open>
  \<open>xs.sort(cmp)\<close>: the sort is stable, and with a comparator that is a consistent
  ordering its result is that of the stable insertion sort.
\<close>

fun js_insert :: "('a \<Rightarrow> 'a \<Rightarrow> int) \<Rightarrow> 'a \<Rightarrow> 'a list \<Rightarrow> 'a list" where
  "js_insert cmp x [] = [x]"
| "js_insert cmp x (y # ys) = (if cmp x y \<le> 0 then x # y # ys else y # js_insert cmp x ys)"

definition js_sort :: "('a \<Rightarrow> 'a \<Rightarrow> int) \<Rightarrow> 'a list \<Rightarrow> 'a list" where
  "js_sort cmp xs = foldr (js_insert cmp) xs []"

subsection \<open>Global replacement\<close>

text \<open>
  \<open>s.replace(/re/g, r)\<close>: the matcher \<open>m\<close> of a regular expression takes the code unit
  before the current position (\<open>None\<close> at the start of the input, for \<open>^\<close>) and the rest
  of the input from the current position, and returns the length of the match that
  begins exactly there together with its replacement, or \<open>None\<close>. The scan replaces
  the leftmost match, resumes behind it, and copies a unit where nothing matches. After
  an empty match the scan copies one unit and moves on, as ECMAScript does.
\<close>

type_synonym matcher = "nat option \<Rightarrow> jsstring \<Rightarrow> (nat \<times> jsstring) option"

function gsub :: "matcher \<Rightarrow> nat option \<Rightarrow> jsstring \<Rightarrow> jsstring" where
  "gsub m prev [] = (case m prev [] of None \<Rightarrow> [] | Some (k, rep) \<Rightarrow> rep)"
| "gsub m prev (c # cs) =
     (case m prev (c # cs) of
        None \<Rightarrow> c # gsub m (Some c) cs
      | Some (k, rep) \<Rightarrow>
          if k = 0 then rep @ c # gsub m (Some c) cs
          else rep @ gsub m (Some (last (take k (c # cs)))) (drop k (c # cs)))"
  by pat_completeness auto
termination
  by (relation "measure (\<lambda>(m, prev, s). length s)") auto

section \<open>Data model and configuration\<close>

record UsageExample =
  title :: jsstring
  description :: "jsstring option"
  code :: jsstring
  language :: jsstring

definition MIN_CODE_BLOCK_LENGTH :: nat where "MIN_CODE_BLOCK_LENGTH = 10"
definition MAX_CODE_BLOCK_LENGTH :: nat where "MAX_CODE_BLOCK_LENGTH = 5000"
definition IDEAL_EXAMPLE_LENGTH :: nat where "IDEAL_EXAMPLE_LENGTH = 200"
definition MAX_EXAMPLES :: nat where "MAX_EXAMPLES = 20"

section \<open>ExampleExtractor\<close>

definition backtick :: nat where "backtick = 96"

definition fence :: jsstring where "fence = [backtick, backtick, backtick]"

text \<open>\<open>/^```(\w+)/\<close>: the word units behind the three backticks, lower-cased.\<close>

definition extractLanguage :: "jsstring \<Rightarrow> jsstring" where
  "extractLanguage codeFenceLine =
     (if prefix fence codeFenceLine \<and> takeWhile isWordChar (drop 3 codeFenceLine) \<noteq> []
      then toLowerCase (takeWhile isWordChar (drop 3 codeFenceLine))
      else str ''python'')"

definition isUsageSection :: "jsstring \<Rightarrow> bool" where
  "isUsageSection sectionName \<longleftrightarrow>
     (\<exists>keyword \<in> set [str ''usage'', str ''example'', str ''quickstart'',
                       str ''getting started'', str ''how to'', str ''tutorial''].
        js_includes sectionName keyword)"

definition isRelevantLanguage :: "jsstring \<Rightarrow> bool" where
  "isRelevantLanguage lang \<longleftrightarrow>
     toLowerCase lang \<in> set [str ''python'', str ''py'', str ''bash'', str ''shell'',
                              str ''sh'', str ''text'', []]"

definition isOutputOnly :: "jsstring \<Rightarrow> bool" where
  "isOutputOnly c \<longleftrightarrow>
     \<not> (\<exists>keyword \<in> set [str ''import'', str ''from'', str ''def'', str ''class'', str ''if'',
                         str ''for'', str ''while'', str ''try'', str ''with'', str ''=''].
          js_includes c keyword)"

definition hasUsageIndicators :: "jsstring \<Rightarrow> jsstring \<Rightarrow> jsstring \<Rightarrow> bool" where
  "hasUsageIndicators c lang section =
     (if js_includes c (str ''import '') \<or> js_includes c (str ''from '') then True
      else if isUsageSection section then True
      else if js_includes c (str ''='') \<and> \<not> js_includes c (str ''=='') then True
      else False)"

definition isLikelyUsageExample :: "jsstring \<Rightarrow> jsstring \<Rightarrow> jsstring \<Rightarrow> bool" where
  "isLikelyUsageExample c lang section =
     (let trimmedCode = js_trim c in
      if length trimmedCode < MIN_CODE_BLOCK_LENGTH \<or>
         length trimmedCode > MAX_CODE_BLOCK_LENGTH then False
      else if lang \<noteq> [] \<and> \<not> isRelevantLanguage lang then False
      else if isOutputOnly trimmedCode then False
      else hasUsageIndicators trimmedCode lang section)"

text \<open>\<open>/^\w+\.\w+\(/\<close> at the start of the string.\<close>

definition callPatternAt :: "jsstring \<Rightarrow> bool" where
  "callPatternAt s =
     (let w1 = takeWhile isWordChar s; r1 = dropWhile isWordChar s in
      w1 \<noteq> [] \<and>
      (case r1 of
         [] \<Rightarrow> False
       | d # r2 \<Rightarrow> d = 46 \<and> takeWhile isWordChar r2 \<noteq> [] \<and>
           (case dropWhile isWordChar r2 of [] \<Rightarrow> False | p # _ \<Rightarrow> p = 40)))"

definition isSimpleUsageExample :: "jsstring \<Rightarrow> bool" where
  "isSimpleUsageExample c \<longleftrightarrow>
     js_includes c (str ''import '') \<or>
     (js_includes c (str ''='') \<and> \<not> js_includes c (str ''=='')) \<or>
     callPatternAt c"

text \<open>\<open>word.charAt(0).toUpperCase() + word.slice(1)\<close>.\<close>

definition capitalize :: "jsstring \<Rightarrow> jsstring" where
  "capitalize word = (case word of [] \<Rightarrow> [] | c # cs \<Rightarrow> upperUnit c @ cs)"

definition formatTitle :: "jsstring \<Rightarrow> jsstring" where
  "formatTitle section = js_join 32 (map capitalize (js_split 32 section))"

text \<open>
  \<open>trimmedLine.match(/^#+\s/)\<close> and \<open>trimmedLine.replace(/^#+\s*/, '')\<close>: neither has the
  \<open>m\<close> flag, so \<open>^\<close> is the start of the line only.
\<close>

definition isHeaderLine :: "jsstring \<Rightarrow> bool" where
  "isHeaderLine trimmedLine =
     (takeWhile (\<lambda>c. c = 35) trimmedLine \<noteq> [] \<and>
      (case dropWhile (\<lambda>c. c = 35) trimmedLine of [] \<Rightarrow> False | c # _ \<Rightarrow> isWhiteSpace c))"

definition stripHeaderMarks :: "jsstring \<Rightarrow> jsstring" where
  "stripHeaderMarks trimmedLine =
     (if takeWhile (\<lambda>c. c = 35) trimmedLine \<noteq> []
      then dropWhile isWhiteSpace (dropWhile (\<lambda>c. c = 35) trimmedLine)
      else trimmedLine)"

text \<open>The local variables of the loop of \<open>extractBlockExamples\<close>.\<close>

record scan_state =
  currentSection :: jsstring
  inCodeBlock :: bool
  currentCodeBlock :: jsstring
  currentLanguage :: jsstring
  examples :: "UsageExample list"

definition initialScan :: scan_state where
  "initialScan = \<lparr>currentSection = [], inCodeBlock = False, currentCodeBlock = [],
                   currentLanguage = [], examples = []\<rparr>"

definition blockExample :: "scan_state \<Rightarrow> UsageExample" where
  "blockExample st =
     \<lparr>title = (if formatTitle (currentSection st) \<noteq> [] then formatTitle (currentSection st)
               else str ''Code Example''),
      description = None,
      code = js_trim (currentCodeBlock st),
      language = (if currentLanguage st \<noteq> [] then currentLanguage st else str ''python'')\<rparr>"

text \<open>One iteration of the loop over the lines.\<close>

definition scanLine :: "scan_state \<Rightarrow> jsstring \<Rightarrow> scan_state" where
  "scanLine st0 line =
     (let trimmedLine = js_trim line;
          st = (if isHeaderLine trimmedLine
                then st0\<lparr>currentSection := toLowerCase (stripHeaderMarks trimmedLine)\<rparr>
                else st0)
      in if prefix fence trimmedLine then
           (if \<not> inCodeBlock st then
              st\<lparr>inCodeBlock := True, currentCodeBlock := [],
                 currentLanguage := extractLanguage trimmedLine\<rparr>
            else
              (if isLikelyUsageExample (currentCodeBlock st) (currentLanguage st)
                    (currentSection st)
               then st\<lparr>inCodeBlock := False, currentCodeBlock := [],
                       examples := examples st @ [blockExample st]\<rparr>
               else st\<lparr>inCodeBlock := False, currentCodeBlock := []\<rparr>))
         else if inCodeBlock st then
           st\<lparr>currentCodeBlock := currentCodeBlock st @ line @ [10]\<rparr>
         else st)"

definition extractBlockExamples :: "jsstring \<Rightarrow> UsageExample list" where
  "extractBlockExamples readmeContent =
     examples (foldl scanLine initialScan (js_split 10 readmeContent))"

text \<open>
  The \<open>exec\<close> loop over \<open>/`([^`]+)`/g\<close>: a match is a backtick, a non-empty maximal run
  without a backtick, and a backtick; the search resumes behind the closing backtick.
  The list holds group 1 of each match.
\<close>

function inlineCodeSpans :: "jsstring \<Rightarrow> jsstring list" where
  "inlineCodeSpans [] = []"
| "inlineCodeSpans (c # cs) =
     (if c = backtick \<and> takeWhile (\<lambda>x. x \<noteq> backtick) cs \<noteq> [] \<and>
         dropWhile (\<lambda>x. x \<noteq> backtick) cs \<noteq> []
      then takeWhile (\<lambda>x. x \<noteq> backtick) cs #
           inlineCodeSpans (tl (dropWhile (\<lambda>x. x \<noteq> backtick) cs))
      else inlineCodeSpans cs)"
  by pat_completeness auto
termination
proof (relation "measure length")
  fix c :: nat and cs :: jsstring
  have "length (tl (dropWhile (\<lambda>x. x \<noteq> backtick) cs)) \<le> length cs"
    using length_dropWhile_le [of "\<lambda>x. x \<noteq> backtick" cs] by simp
  then show "(tl (dropWhile (\<lambda>x. x \<noteq> backtick) cs), c # cs) \<in> measure length"
    by simp
qed simp_all

definition inlineExample :: "jsstring \<Rightarrow> UsageExample" where
  "inlineExample c =
     \<lparr>title = str ''Quick Example'', description = None, code = c,
      language = str ''python''\<rparr>"

definition extractInlineExamples :: "jsstring \<Rightarrow> UsageExample list" where
  "extractInlineExamples content =
     map inlineExample (filter isSimpleUsageExample (map js_trim (inlineCodeSpans content)))"

text \<open>The body of the \<open>try\<close> block of \<open>extractUsageExamples\<close>, for a string.\<close>

definition extractUsageExamples :: "jsstring \<Rightarrow> UsageExample list" where
  "extractUsageExamples readmeContent =
     (let blockExamples = extractBlockExamples readmeContent;
          inlineExamples = extractInlineExamples readmeContent;
          allExamples = blockExamples @ inlineExamples
      in take MAX_EXAMPLES allExamples)"

section \<open>ExampleProcessor\<close>

text \<open>\<open>/\s+/g\<close>, replaced by one space.\<close>

definition m_whitespaceRun :: matcher where
  "m_whitespaceRun prev s =
     (let n = length (takeWhile isWhiteSpace s) in
      if 1 \<le> n then Some (n, [32]) else None)"

definition unifyQuote :: "nat \<Rightarrow> nat" where
  "unifyQuote c = (if c = 39 \<or> c = 34 then 34 else c)"

definition normalizeCode :: "jsstring \<Rightarrow> jsstring" where
  "normalizeCode c = toLowerCase (js_trim (map unifyQuote (gsub m_whitespaceRun None c)))"

text \<open>The loop of \<open>deduplicateExamples\<close> over the set \<open>seenCodes\<close> and the list \<open>unique\<close>.\<close>

fun dedupLoop :: "jsstring set \<Rightarrow> UsageExample list \<Rightarrow> UsageExample list \<Rightarrow> UsageExample list"
  where
  "dedupLoop seenCodes unique [] = unique"
| "dedupLoop seenCodes unique (example # rest) =
     (let normalizedCode = normalizeCode (code example) in
      if normalizedCode \<notin> seenCodes
      then dedupLoop (insert normalizedCode seenCodes) (unique @ [example]) rest
      else dedupLoop seenCodes unique rest)"

definition deduplicateExamples :: "UsageExample list \<Rightarrow> UsageExample list" where
  "deduplicateExamples exs = dedupLoop {} [] exs"

definition isGoodTitle :: "jsstring \<Rightarrow> bool" where
  "isGoodTitle t \<longleftrightarrow>
     (\<exists>keyword \<in> set [str ''usage'', str ''example'', str ''quickstart'', str ''basic'',
                       str ''simple'', str ''getting started''].
        js_includes (toLowerCase t) keyword)"

text \<open>\<open>code.match(/\w+\.\w+\(/)\<close>: the pattern matches at some position.\<close>

fun callPatternAnywhere :: "jsstring \<Rightarrow> bool" where
  "callPatternAnywhere [] = False"
| "callPatternAnywhere (c # cs) = (callPatternAt (c # cs) \<or> callPatternAnywhere cs)"

definition calculateRelevanceScore :: "UsageExample \<Rightarrow> int" where
  "calculateRelevanceScore example =
     (let score0 = 0;
          score1 = (if js_includes (code example) (str ''import '') then score0 + 50 else score0);
          score2 = (if js_includes (code example) (str ''from '') then score1 + 45 else score1);
          score3 = (if js_includes (code example) (str ''='') \<and>
                       \<not> js_includes (code example) (str ''=='') then score2 + 30 else score2);
          score4 = (if callPatternAnywhere (code example) then score3 + 25 else score3);
          score5 = (if title example \<noteq> [] \<and> isGoodTitle (title example)
                    then score4 + 20 else score4);
          score6 = (if description example \<noteq> None \<and> description example \<noteq> Some []
                    then score5 + 15 else score5);
          len = int (length (code example))
      in if len \<ge> 50 \<and> len \<le> int IDEAL_EXAMPLE_LENGTH then score6 + 10
         else if len > int IDEAL_EXAMPLE_LENGTH
         then score6 - (len - int IDEAL_EXAMPLE_LENGTH) div 100
         else score6)"

text \<open>The comparator \<open>b._score - a._score\<close> puts the higher score first.\<close>

definition sortExamplesByRelevance :: "UsageExample list \<Rightarrow> UsageExample list" where
  "sortExamplesByRelevance exs =
     js_sort (\<lambda>a b. calculateRelevanceScore b - calculateRelevanceScore a) exs"

section \<open>ReadmeService\<close>

definition service_extractUsageExamples :: "jsstring \<Rightarrow> UsageExample list" where
  "service_extractUsageExamples readmeContent =
     (let rawExamples = extractUsageExamples readmeContent;
          uniqueExamples = deduplicateExamples rawExamples
      in sortExamplesByRelevance uniqueExamples)"

section \<open>ReadmeContentCleaner\<close>

text \<open>\<open>/\n{3,}/g\<close>, replaced by two newlines: a maximal run of three or more.\<close>

definition m_newlines3 :: matcher where
  "m_newlines3 prev s =
     (let n = length (takeWhile (\<lambda>c. c = 10) s) in
      if 3 \<le> n then Some (n, [10, 10]) else None)"

text \<open>
  \<open>$\<close> under the \<open>m\<close> flag: the end of the input, or a LineTerminator follows.
  \<open>^\<close> under the \<open>m\<close> flag: the start of the input, or a LineTerminator precedes.
\<close>

definition atLineEnd :: "jsstring \<Rightarrow> bool" where
  "atLineEnd r = (case r of [] \<Rightarrow> True | c # _ \<Rightarrow> isLineTerminator c)"

definition atLineStart :: "nat option \<Rightarrow> bool" where
  "atLineStart prev = (case prev of None \<Rightarrow> True | Some p \<Rightarrow> isLineTerminator p)"

text \<open>
  \<open>/[ \t]+$/gm\<close>, removed: the maximal run of spaces and tabs, when the line ends behind
  it (a shorter run is followed by a space or a tab, where \<open>$\<close> fails).
\<close>

definition isSpaceOrTab :: "nat \<Rightarrow> bool" where
  "isSpaceOrTab c \<longleftrightarrow> c = 32 \<or> c = 9"

definition m_trailingSpaces :: matcher where
  "m_trailingSpaces prev s =
     (let n = length (takeWhile isSpaceOrTab s) in
      if 1 \<le> n \<and> atLineEnd (drop n s) then Some (n, []) else None)"

text \<open>\<open>/\r\n/g\<close>, replaced by a newline.\<close>

definition m_crlf :: matcher where
  "m_crlf prev s = (if prefix [13, 10] s then Some (2, [10]) else None)"

text \<open>The position of the first occurrence of \<open>sub\<close> in \<open>s\<close> (\<open>s.indexOf(sub)\<close>).\<close>

fun indexOf :: "jsstring \<Rightarrow> jsstring \<Rightarrow> nat option" where
  "indexOf sub [] = (if sub = [] then Some 0 else None)"
| "indexOf sub (c # cs) =
     (if prefix sub (c # cs) then Some 0
      else (case indexOf sub cs of None \<Rightarrow> None | Some i \<Rightarrow> Some (Suc i)))"

text \<open>
  \<open>/<!--[\s\S]*?-->/g\<close>, removed: the opening mark, and lazily everything up to the first
  closing mark behind it.
\<close>

definition m_htmlComment :: matcher where
  "m_htmlComment prev s =
     (if prefix (str ''<!--'') s
      then (case indexOf (str ''-->'') (drop 4 s) of
              None \<Rightarrow> None
            | Some j \<Rightarrow> Some (4 + j + 3, []))
      else None)"

text \<open>
  \<open>/^\s*[-*_]{3,}\s*$/gm\<close>, replaced by \<open>---\<close>. At the start of a line: the maximal run of
  white space (which may span line breaks), the maximal run of three or more rule
  units, and the longest run of white space behind which \<open>$\<close> holds. Neither of the first
  two runs can be shorter, since the unit that follows must belong to the next part.
\<close>

definition isRuleUnit :: "nat \<Rightarrow> bool" where
  "isRuleUnit c \<longleftrightarrow> c = 45 \<or> c = 42 \<or> c = 95"

definition ruleTail :: "jsstring \<Rightarrow> nat option" where
  "ruleTail r =
     find (\<lambda>k. atLineEnd (drop k r)) (rev [0 ..< Suc (length (takeWhile isWhiteSpace r))])"

definition m_horizontalRule :: matcher where
  "m_horizontalRule prev s =
     (let lead = takeWhile isWhiteSpace s;
          r1 = dropWhile isWhiteSpace s;
          marks = takeWhile isRuleUnit r1;
          r2 = dropWhile isRuleUnit r1
      in if atLineStart prev \<and> 3 \<le> length marks
         then (case ruleTail r2 of
                 None \<Rightarrow> None
               | Some k \<Rightarrow> Some (length lead + length marks + k, str ''---''))
         else None)"

text \<open>
  \<open>/\|[\s\-:|]+\|/g\<close>, replaced by the match with each of its white space runs turned
  into one space. The class contains the bar, so the greedy run swallows every bar and
  gives back units until a bar closes the match: the last bar of the run that leaves
  at least one unit before it.
\<close>

definition isTableUnit :: "nat \<Rightarrow> bool" where
  "isTableUnit c \<longleftrightarrow> isWhiteSpace c \<or> c = 45 \<or> c = 58 \<or> c = 124"

definition m_tableSeparator :: matcher where
  "m_tableSeparator prev s =
     (case s of
        [] \<Rightarrow> None
      | c # r \<Rightarrow>
          if c = 124
          then (let run = takeWhile isTableUnit r in
                case find (\<lambda>j. run ! j = 124) (rev [1 ..< length run]) of
                  None \<Rightarrow> None
                | Some j \<Rightarrow> Some (j + 2, gsub m_whitespaceRun None (take (j + 2) s)))
          else None)"

text \<open>
  \<open>/\[([^\]]*)\]\(\s*\)/g\<close>, replaced by group 1: the text up to the first closing
  bracket, which an opening parenthesis, white space only and a closing parenthesis
  must follow.
\<close>

definition m_emptyLink :: matcher where
  "m_emptyLink prev s =
     (case s of
        [] \<Rightarrow> None
      | c # r \<Rightarrow>
          if c = 91
          then (let linkText = takeWhile (\<lambda>x. x \<noteq> 93) r in
                case dropWhile (\<lambda>x. x \<noteq> 93) r of
                  b # p # r2 \<Rightarrow>
                    (let blanks = takeWhile isWhiteSpace r2 in
                     case dropWhile isWhiteSpace r2 of
                       q # _ \<Rightarrow>
                         if p = 40 \<and> q = 41
                         then Some (length linkText + length blanks + 4, linkText)
                         else None
                     | [] \<Rightarrow> None)
                | _ \<Rightarrow> None)
          else None)"

definition cleanMarkdownArtifacts :: "jsstring \<Rightarrow> jsstring" where
  "cleanMarkdownArtifacts content =
     (let cleaned1 = gsub m_horizontalRule None content;
          cleaned2 = gsub m_tableSeparator None cleaned1;
          cleaned3 = gsub m_emptyLink None cleaned2
      in cleaned3)"

text \<open>The statements of the \<open>try\<close> block of \<open>cleanReadmeContent\<close> behind its guard.\<close>

definition cleanSteps :: "jsstring \<Rightarrow> jsstring" where
  "cleanSteps content =
     (let cleaned1 = gsub m_newlines3 None content;
          cleaned2 = gsub m_trailingSpaces None cleaned1;
          cleaned3 = gsub m_crlf None cleaned2;
          cleaned4 = gsub m_htmlComment None cleaned3;
          cleaned5 = cleanMarkdownArtifacts cleaned4
      in js_trim cleaned5)"

section \<open>The entry points and their exception handlers\<close>

text \<open>
  TypeScript declares the argument of both entry points a string, and JavaScript checks
  nothing at run time: the argument is any value. The primitive values are modelled. A
  method call on a value that has no such method throws a \<open>TypeError\<close>.
\<close>

datatype jsval = JSUndefined | JSNull | JSBoolean bool | JSNumber int | JSString jsstring

datatype error = TypeError

definition truthy :: "jsval \<Rightarrow> bool" where
  "truthy v =
     (case v of
        JSUndefined \<Rightarrow> False
      | JSNull \<Rightarrow> False
      | JSBoolean b \<Rightarrow> b
      | JSNumber n \<Rightarrow> n \<noteq> 0
      | JSString s \<Rightarrow> s \<noteq> [])"

definition isString :: "jsval \<Rightarrow> bool" where
  "isString v = (case v of JSString s \<Rightarrow> True | _ \<Rightarrow> False)"

definition cleanReadmeContent_try :: "jsval \<Rightarrow> error + jsstring" where
  "cleanReadmeContent_try content =
     (if \<not> truthy content \<or> \<not> isString content then Inr []
      else (case content of
              JSString s \<Rightarrow> Inr (cleanSteps s)
            | _ \<Rightarrow> Inl TypeError))"

text \<open>The handler returns \<open>content || ''\<close>.\<close>

definition cleanReadmeContent_catch :: "jsval \<Rightarrow> jsval" where
  "cleanReadmeContent_catch content = (if truthy content then content else JSString [])"

definition cleanReadmeContent :: "jsval \<Rightarrow> jsval" where
  "cleanReadmeContent content =
     (case cleanReadmeContent_try content of
        Inr cleaned \<Rightarrow> JSString cleaned
      | Inl e \<Rightarrow> cleanReadmeContent_catch content)"

definition extractUsageExamples_try :: "jsval \<Rightarrow> error + UsageExample list" where
  "extractUsageExamples_try readmeContent =
     (case readmeContent of
        JSString s \<Rightarrow> Inr (extractUsageExamples s)
      | _ \<Rightarrow> Inl TypeError)"

definition extractUsageExamples_catch :: "UsageExample list" where
  "extractUsageExamples_catch = []"

definition extractUsageExamples_entry :: "jsval \<Rightarrow> UsageExample list" where
  "extractUsageExamples_entry readmeContent =
     (case extractUsageExamples_try readmeContent of
        Inr found \<Rightarrow> found
      | Inl e \<Rightarrow> extractUsageExamples_catch)"

text \<open>\<open>ReadmeService\<close> hands its argument on and has no handler of its own.\<close>

definition service_cleanReadmeContent :: "jsval \<Rightarrow> jsval" where
  "service_cleanReadmeContent content = cleanReadmeContent content"

definition service_extractUsageExamples_entry :: "jsval \<Rightarrow> UsageExample list" where
  "service_extractUsageExamples_entry readmeContent =
     (let rawExamples = extractUsageExamples_entry readmeContent;
          uniqueExamples = deduplicateExamples rawExamples
      in sortExamplesByRelevance uniqueExamples)"

section \<open>ReadmeParser, the earlier implementation\<close>

text \<open>
  The class \<open>ReadmeParser\<close> is the earlier implementation of the extraction. It has its
  own alias table, classifier, duplicate key and ranking.
\<close>

definition parser_isUsageSection :: "jsstring \<Rightarrow> bool" where
  "parser_isUsageSection sectionName \<longleftrightarrow>
     (\<exists>section \<in> set [str ''usage'', str ''examples'', str ''example'', str ''quick start'',
                       str ''quickstart'', str ''getting started'', str ''tutorial'',
                       str ''how to use'', str ''basic usage'', str ''installation and usage'',
                       str ''api usage'', str ''code example'', str ''sample code'',
                       str ''demo''].
        js_includes sectionName section \<or> js_includes section sectionName)"

text \<open>
  The value of \<open>languageMap[lang] || lang\<close>. The table is an object literal, so a key
  that it does not hold is looked up in \<open>Object.prototype\<close>: the two of its properties
  that a lower-cased \<open>\w+\<close> can name yield an object, not a string.
\<close>

datatype langval = LangString jsstring | LangObject

definition languageMap :: "(jsstring \<times> jsstring) list" where
  "languageMap =
     [(str ''py'', str ''python''), (str ''python3'', str ''python''),
      (str ''bash'', str ''bash''), (str ''shell'', str ''bash''), (str ''sh'', str ''bash''),
      (str ''console'', str ''bash''), (str ''terminal'', str ''bash''),
      (str ''cmd'', str ''bash''), (str ''yaml'', str ''yaml''), (str ''yml'', str ''yaml''),
      (str ''json'', str ''json''), (str ''toml'', str ''toml''), (str ''ini'', str ''ini''),
      (str ''cfg'', str ''ini''), (str ''conf'', str ''ini'')]"

definition parser_extractLanguage :: "jsstring \<Rightarrow> langval" where
  "parser_extractLanguage codeBlockLine =
     (if prefix fence codeBlockLine \<and> takeWhile isWordChar (drop 3 codeBlockLine) \<noteq> []
      then (let lang = toLowerCase (takeWhile isWordChar (drop 3 codeBlockLine)) in
            case map_of languageMap lang of
              Some canonical \<Rightarrow> LangString canonical
            | None \<Rightarrow>
                if lang = str ''constructor'' \<or> lang = str ''__proto__'' then LangObject
                else LangString lang)
      else LangString (str ''python''))"

text \<open>
  The patterns of \<open>isOutputOnly\<close>, each tested at the start of a trimmed line. In front of
  an output pattern stands \<open>[>\s]*\<close>.
\<close>

definition isDigit :: "nat \<Rightarrow> bool" where
  "isDigit c \<longleftrightarrow> 48 \<le> c \<and> c \<le> 57"

definition isQuoteMark :: "nat \<Rightarrow> bool" where
  "isQuoteMark c \<longleftrightarrow> c = 62 \<or> isWhiteSpace c"

definition looksLikeOutput :: "jsstring \<Rightarrow> bool" where
  "looksLikeOutput trimmed =
     (let r = dropWhile isQuoteMark trimmed in
      (case r of [] \<Rightarrow> False | c # _ \<Rightarrow> isDigit c) \<or>
      (takeWhile isWordChar r \<noteq> [] \<and>
         (case dropWhile isWordChar r of [] \<Rightarrow> False | c # _ \<Rightarrow> c = 58)) \<or>
      (case r of [] \<Rightarrow> False | c # _ \<Rightarrow> c = 124) \<or>
      (case r of [] \<Rightarrow> False | c # _ \<Rightarrow> c = 43) \<or>
      (case r of [] \<Rightarrow> False | c # _ \<Rightarrow> c = 61) \<or>
      (case r of [] \<Rightarrow> False | c # _ \<Rightarrow> c = 45))"

text \<open>\<open>word\<close>, then \<open>\s+\<close>, then what \<open>after\<close> asks of the rest.\<close>

definition wordThenSpace :: "jsstring \<Rightarrow> (jsstring \<Rightarrow> bool) \<Rightarrow> jsstring \<Rightarrow> bool" where
  "wordThenSpace word after s =
     (prefix word s \<and>
      takeWhile isWhiteSpace (drop (length word) s) \<noteq> [] \<and>
      after (dropWhile isWhiteSpace (drop (length word) s)))"

definition startsWithWordChar :: "jsstring \<Rightarrow> bool" where
  "startsWithWordChar s = (case s of [] \<Rightarrow> False | c # _ \<Rightarrow> isWordChar c)"

definition looksLikeCode :: "jsstring \<Rightarrow> bool" where
  "looksLikeCode trimmed =
     (wordThenSpace (str ''import'') startsWithWordChar trimmed \<or>
      wordThenSpace (str ''from'') startsWithWordChar trimmed \<or>
      wordThenSpace (str ''def'') startsWithWordChar trimmed \<or>
      wordThenSpace (str ''class'') startsWithWordChar trimmed \<or>
      wordThenSpace (str ''pip'') (prefix (str ''install'')) trimmed \<or>
      wordThenSpace (str ''python'') (\<lambda>r. True) trimmed \<or>
      (takeWhile isWordChar trimmed \<noteq> [] \<and>
         (case dropWhile isWhiteSpace (dropWhile isWordChar trimmed) of
            [] \<Rightarrow> False
          | c # _ \<Rightarrow> c = 61)))"

text \<open>The loop of \<open>isOutputOnly\<close>: the counters \<open>outputLines\<close> and \<open>codeLines\<close>.\<close>

fun countLines :: "nat \<times> nat \<Rightarrow> jsstring list \<Rightarrow> nat \<times> nat" where
  "countLines (outputLines, codeLines) [] = (outputLines, codeLines)"
| "countLines (outputLines, codeLines) (line # rest) =
     (let trimmed = js_trim line in
      if trimmed = [] then countLines (outputLines, codeLines) rest
      else if looksLikeOutput trimmed then countLines (outputLines + 1, codeLines) rest
      else if looksLikeCode trimmed then countLines (outputLines, codeLines + 1) rest
      else countLines (outputLines, codeLines) rest)"

text \<open>
  \<open>outputLines > lines.length * 0.6\<close>: the product is the nearest double to six tenths of
  the length, which is the exact value whenever that is a whole number, so the
  comparison with a whole number is the one of \<open>10 * outputLines\<close> with \<open>6 * length\<close>.
\<close>

definition parser_isOutputOnly :: "jsstring \<Rightarrow> bool" where
  "parser_isOutputOnly c =
     (let lines = js_split 10 (js_trim c);
          counted = countLines (0, 0) lines
      in fst counted > snd counted \<and> 10 * fst counted > 6 * length lines)"

definition parser_isLikelyUsageExample :: "jsstring \<Rightarrow> langval \<Rightarrow> jsstring \<Rightarrow> bool" where
  "parser_isLikelyUsageExample c lang t =
     (if length (js_trim c) < 10 \<or> length (js_trim c) > 5000 then False
      else if lang \<noteq> LangString [] \<and>
              lang \<notin> set (map LangString [str ''python'', str ''bash'', str ''yaml'',
                                            str ''json'', str ''toml'', str ''ini''])
           then False
      else if parser_isOutputOnly c then False
      else if lang = LangString (str ''python'') then True
      else if lang = LangString (str ''bash'') \<and>
              (js_includes c (str ''pip install'') \<or> js_includes c (str ''pipx install''))
           then True
      else if lang \<in> set (map LangString [str ''yaml'', str ''json'', str ''toml'', str ''ini''])
           then True
      else if t \<noteq> [] \<and> parser_isUsageSection (toLowerCase t) then True
      else False)"

text \<open>The local variables of the loop of \<open>ReadmeParser.extractUsageExamples\<close>.\<close>

record parser_state =
  p_currentSection :: jsstring
  p_inCodeBlock :: bool
  p_currentCodeBlock :: jsstring
  p_currentLanguage :: langval
  p_currentTitle :: jsstring
  p_currentDescription :: jsstring
  p_examples :: "UsageExample list"

definition parser_initial :: parser_state where
  "parser_initial =
     \<lparr>p_currentSection = [], p_inCodeBlock = False, p_currentCodeBlock = [],
      p_currentLanguage = LangString [], p_currentTitle = [], p_currentDescription = [],
      p_examples = []\<rparr>"

text \<open>
  The example pushed at a closing fence. Its language is \<open>currentLanguage || 'python'\<close>;
  the classifier has rejected the block whose language is an object, so that case
  never reaches the list.
\<close>

definition parser_example :: "parser_state \<Rightarrow> UsageExample" where
  "parser_example st =
     \<lparr>title = (if p_currentTitle st \<noteq> [] then p_currentTitle st else str ''Code Example''),
      description = (if p_currentDescription st \<noteq> [] then Some (p_currentDescription st)
                     else None),
      code = js_trim (p_currentCodeBlock st),
      language = (case p_currentLanguage st of
                    LangString l \<Rightarrow> if l \<noteq> [] then l else str ''python''
                  | LangObject \<Rightarrow> [])\<rparr>"

definition parser_scanLine :: "parser_state \<Rightarrow> jsstring \<Rightarrow> parser_state" where
  "parser_scanLine st0 line =
     (let trimmedLine = js_trim line;
          st1 = (if isHeaderLine trimmedLine
                 then st0\<lparr>p_currentSection := toLowerCase (stripHeaderMarks trimmedLine)\<rparr>
                 else st0);
          st = (if isHeaderLine trimmedLine \<and> parser_isUsageSection (p_currentSection st1)
                then st1\<lparr>p_currentTitle := p_currentSection st1, p_currentDescription := []\<rparr>
                else st1)
      in if prefix fence trimmedLine then
           (if \<not> p_inCodeBlock st then
              st\<lparr>p_inCodeBlock := True, p_currentCodeBlock := [],
                 p_currentLanguage := parser_extractLanguage trimmedLine,
                 p_currentTitle :=
                   (if p_currentTitle st = [] \<and> p_currentSection st \<noteq> []
                    then formatTitle (p_currentSection st) else p_currentTitle st)\<rparr>
            else
              (if parser_isLikelyUsageExample (p_currentCodeBlock st) (p_currentLanguage st)
                    (p_currentTitle st)
               then st\<lparr>p_inCodeBlock := False, p_currentCodeBlock := [], p_currentTitle := [],
                       p_currentDescription := [],
                       p_examples := p_examples st @ [parser_example st]\<rparr>
               else st\<lparr>p_inCodeBlock := False, p_currentCodeBlock := [], p_currentTitle := [],
                       p_currentDescription := []\<rparr>))
         else if p_inCodeBlock st then
           st\<lparr>p_currentCodeBlock := p_currentCodeBlock st @ line @ [10]\<rparr>
         else if parser_isUsageSection (p_currentSection st) \<and> trimmedLine \<noteq> [] \<and>
                 \<not> prefix [35] trimmedLine then
           st\<lparr>p_currentDescription :=
                (if p_currentDescription st \<noteq> [] then p_currentDescription st @ [32] else [])
                @ trimmedLine\<rparr>
         else st)"

text \<open>
  \<open>content.match(/re/g)\<close>: the matched substrings, found as the global replacement finds
  them.
\<close>

function gmatch :: "matcher \<Rightarrow> nat option \<Rightarrow> jsstring \<Rightarrow> jsstring list" where
  "gmatch m prev [] = (case m prev [] of None \<Rightarrow> [] | Some (k, rep) \<Rightarrow> [[]])"
| "gmatch m prev (c # cs) =
     (case m prev (c # cs) of
        None \<Rightarrow> gmatch m (Some c) cs
      | Some (k, rep) \<Rightarrow>
          if k = 0 then [] # gmatch m (Some c) cs
          else take k (c # cs) # gmatch m (Some (last (take k (c # cs)))) (drop k (c # cs)))"
  by pat_completeness auto
termination
  by (relation "measure (\<lambda>(m, prev, s). length s)") auto

text \<open>
  \<open>/^(?:from\s+\w+\s+)?import\s+[\w\s,]+$/gm\<close>. The optional group and the word
  \<open>import\<close> are found without choice. Behind \<open>import\<close> the units of \<open>[\w\s,]\<close> form
  a run that must begin with white space and hold two units at least; the match ends at
  the last place of the run, from its second unit on, where \<open>$\<close> holds.
\<close>

definition isImportListUnit :: "nat \<Rightarrow> bool" where
  "isImportListUnit c \<longleftrightarrow> isWordChar c \<or> isWhiteSpace c \<or> c = 44"

definition importTail :: "jsstring \<Rightarrow> nat option" where
  "importTail r =
     (case r of
        [] \<Rightarrow> None
      | c # _ \<Rightarrow>
          if isWhiteSpace c
          then find (\<lambda>k. atLineEnd (drop k r))
                 (rev [2 ..< Suc (length (takeWhile isImportListUnit r))])
          else None)"

definition fromClause :: "jsstring \<Rightarrow> nat option" where
  "fromClause s =
     (let r1 = drop 4 s;
          blanks1 = takeWhile isWhiteSpace r1;
          r2 = dropWhile isWhiteSpace r1;
          name = takeWhile isWordChar r2;
          r3 = dropWhile isWordChar r2;
          blanks2 = takeWhile isWhiteSpace r3
      in if prefix (str ''from'') s \<and> blanks1 \<noteq> [] \<and> name \<noteq> [] \<and> blanks2 \<noteq> []
         then Some (4 + length blanks1 + length name + length blanks2)
         else None)"

definition m_importLine :: matcher where
  "m_importLine prev s =
     (if atLineStart prev
      then (let skip = (case fromClause s of None \<Rightarrow> 0 | Some n \<Rightarrow> n) in
            if prefix (str ''import'') (drop skip s)
            then (case importTail (drop (skip + 6) s) of
                    None \<Rightarrow> None
                  | Some k \<Rightarrow> Some (skip + 6 + k, []))
            else None)
      else None)"

definition parser_extractInlineExamples :: "jsstring \<Rightarrow> UsageExample list" where
  "parser_extractInlineExamples content =
     (let importMatch = gmatch m_importLine None content;
          imports = (if importMatch \<noteq> []
                     then [\<lparr>title = str ''Basic Import'', description = None,
                             code = js_join 10 (take 3 importMatch),
                             language = str ''python''\<rparr>]
                     else []);
          inline = filter (\<lambda>c. length c > 10 \<and> length c < 200 \<and>
                                 (js_includes c (str ''import'') \<or> js_includes c (str ''='') \<or>
                                  js_includes c (str ''('')))
                     (inlineCodeSpans content)
      in imports @
         map (\<lambda>c. \<lparr>title = str ''Inline Example'', description = None, code = c,
                     language = str ''python''\<rparr>) inline)"

text \<open>The loop of \<open>ReadmeParser.deduplicateExamples\<close>; the key is \<open>title:code\<close>.\<close>

fun parser_dedupLoop ::
  "jsstring set \<Rightarrow> UsageExample list \<Rightarrow> UsageExample list \<Rightarrow> UsageExample list" where
  "parser_dedupLoop seen unique [] = unique"
| "parser_dedupLoop seen unique (example # rest) =
     (let key = title example @ [58] @ code example in
      if key \<notin> seen then parser_dedupLoop (insert key seen) (unique @ [example]) rest
      else parser_dedupLoop seen unique rest)"

definition getRelevanceScore :: "UsageExample \<Rightarrow> int" where
  "getRelevanceScore example =
     (let t = toLowerCase (title example);
          c = toLowerCase (code example);
          score1 = (if js_includes t (str ''basic'') \<or> js_includes t (str ''simple'') \<or>
                       js_includes t (str ''quick start'') then 10 else 0);
          score2 = (if js_includes t (str ''usage'') \<or> js_includes t (str ''example'')
                    then score1 + 8 else score1);
          score3 = (if js_includes t (str ''getting started'') \<or> js_includes t (str ''tutorial'')
                    then score2 + 7 else score2);
          score4 = (if js_includes t (str ''advanced'') then score3 + 5 else score3);
          score5 = (if language example = str ''python'' then score4 + 10
                    else if language example = str ''bash'' then score4 + 5 else score4);
          score6 = (if js_includes c (str ''import'') then score5 + 5 else score5);
          score7 = (if js_includes c (str ''pip install'') then score6 + 3 else score6);
          score8 = (if js_includes c (str ''def '') \<or> js_includes c (str ''class '')
                    then score7 + 2 else score7)
      in score8)"

definition parser_compare :: "UsageExample \<Rightarrow> UsageExample \<Rightarrow> int" where
  "parser_compare a b =
     (if getRelevanceScore a \<noteq> getRelevanceScore b
      then getRelevanceScore b - getRelevanceScore a
      else \<bar>int (length (code a)) - 200\<bar> - \<bar>int (length (code b)) - 200\<bar>)"

text \<open>The body of the \<open>try\<close> block of \<open>ReadmeParser.extractUsageExamples\<close>, for a string.\<close>

definition parser_extractUsageExamples :: "jsstring \<Rightarrow> UsageExample list" where
  "parser_extractUsageExamples readmeContent =
     (let blocks = p_examples (foldl parser_scanLine parser_initial (js_split 10 readmeContent));
          allExamples = blocks @ parser_extractInlineExamples readmeContent;
          uniqueExamples = parser_dedupLoop {} [] allExamples
      in js_sort parser_compare uniqueExamples)"

section \<open>Vocabulary of the properties\<close>


text \<open>The languages that an example of \<open>ExampleExtractor\<close> can carry.\<close>

definition currentLanguages :: "jsstring list" where
  "currentLanguages = [str ''python'', str ''py'', str ''bash'', str ''shell'', str ''sh'',
                        str ''text'']"

text \<open>The alias names of the table of \<open>ReadmeParser\<close> that differ from their canonical name.\<close>

definition aliasNames :: "jsstring list" where
  "aliasNames = [str ''py'', str ''python3'', str ''shell'', str ''sh'', str ''console'',
                  str ''terminal'', str ''cmd'', str ''yml'', str ''cfg'', str ''conf'']"






section \<open>Evaluation\<close>

text \<open>The definitions that the simplifier unfolds to run the model on a concrete text.\<close>

lemmas eval_defs = str_def fence_def backtick_def js_trim_def trimStart_def trimEnd_def
  isWhiteSpace_def isLineTerminator_def isWordChar_def toLowerCase_def lowerUnit_def
  upperUnit_def extractLanguage_def isUsageSection_def isRelevantLanguage_def isOutputOnly_def
  hasUsageIndicators_def isLikelyUsageExample_def callPatternAt_def isSimpleUsageExample_def
  capitalize_def formatTitle_def isHeaderLine_def stripHeaderMarks_def initialScan_def
  blockExample_def scanLine_def extractBlockExamples_def inlineExample_def
  extractInlineExamples_def extractUsageExamples_def m_whitespaceRun_def unifyQuote_def
  normalizeCode_def deduplicateExamples_def isGoodTitle_def calculateRelevanceScore_def
  sortExamplesByRelevance_def js_sort_def service_extractUsageExamples_def
  MIN_CODE_BLOCK_LENGTH_def MAX_CODE_BLOCK_LENGTH_def IDEAL_EXAMPLE_LENGTH_def
  MAX_EXAMPLES_def Let_def

lemmas clean_defs = cleanSteps_def cleanMarkdownArtifacts_def m_newlines3_def
  m_trailingSpaces_def m_crlf_def m_htmlComment_def m_horizontalRule_def m_tableSeparator_def
  m_emptyLink_def atLineEnd_def atLineStart_def isSpaceOrTab_def isRuleUnit_def ruleTail_def
  isTableUnit_def

lemmas parser_defs = parser_isUsageSection_def languageMap_def parser_extractLanguage_def
  isDigit_def isQuoteMark_def looksLikeOutput_def wordThenSpace_def startsWithWordChar_def
  looksLikeCode_def parser_isOutputOnly_def parser_isLikelyUsageExample_def parser_initial_def
  parser_example_def parser_scanLine_def isImportListUnit_def importTail_def fromClause_def
  m_importLine_def parser_extractInlineExamples_def getRelevanceScore_def parser_compare_def
  parser_extractUsageExamples_def atLineEnd_def atLineStart_def

section \<open>Properties of deduplication and ranking\<close>

lemma js_sort_score:
  "js_sort (\<lambda>a b. f b - f a) xs = sort_key (\<lambda>e. - f e) xs" for f :: "'a \<Rightarrow> int"
proof -
  have ins: "js_insert (\<lambda>a b. f b - f a) x ys = insort_key (\<lambda>e. - f e) x ys" for x ys
    by (induction ys) auto
  have "foldr (js_insert (\<lambda>a b. f b - f a)) xs [] = foldr (insort_key (\<lambda>e. - f e)) xs []"
    by (induction xs) (auto simp: ins)
  then show ?thesis by (simp add: js_sort_def sort_key_def)
qed

lemma sortExamplesByRelevance_sort_key:
  "sortExamplesByRelevance exs = sort_key (\<lambda>e. - calculateRelevanceScore e) exs"
  by (simp add: sortExamplesByRelevance_def js_sort_score)

lemma dedupLoop_append:
  "dedupLoop seen unique exs = unique @ dedupLoop seen [] exs"
proof (induction exs arbitrary: seen unique)
  case Nil
  show ?case by simp
next
  case (Cons e exs)
  show ?case
    using Cons.IH [of "insert (normalizeCode (code e)) seen" "unique @ [e]"]
          Cons.IH [of "insert (normalizeCode (code e)) seen" "[e]"]
          Cons.IH [of seen unique]
    by (simp add: Let_def)
qed

lemma dedupLoop_Cons:
  "dedupLoop seen [] (e # exs) =
     (if normalizeCode (code e) \<notin> seen
      then e # dedupLoop (insert (normalizeCode (code e)) seen) [] exs
      else dedupLoop seen [] exs)"
  using dedupLoop_append [of "insert (normalizeCode (code e)) seen" "[e]" exs]
  by (simp add: Let_def)

lemma dedupLoop_length: "length (dedupLoop seen [] exs) \<le> length exs"
proof (induction exs arbitrary: seen)
  case Nil
  show ?case by simp
next
  case (Cons e exs)
  show ?case
    using Cons.IH [of seen] Cons.IH [of "insert (normalizeCode (code e)) seen"]
    by (simp add: dedupLoop_Cons del: dedupLoop.simps)
qed

lemma deduplicateExamples_length: "length (deduplicateExamples exs) \<le> length exs"
  by (simp add: deduplicateExamples_def dedupLoop_length)

lemma dedupLoop_subset: "set (dedupLoop seen [] exs) \<subseteq> set exs"
proof (induction exs arbitrary: seen)
  case Nil
  show ?case by simp
next
  case (Cons e exs)
  show ?case
    using Cons.IH [of seen] Cons.IH [of "insert (normalizeCode (code e)) seen"]
    by (auto simp: dedupLoop_Cons simp del: dedupLoop.simps)
qed










text \<open>
  C9: the list returned by the extraction entry point holds at most
  \<open>MAX_EXAMPLES = 20\<close> examples, whatever the input: both the extractor's own result
  and the result of the service around it, which only drops and reorders examples. The
  entry point takes the text as its only argument.
\<close>

theorem extractUsageExamples_cap:
  "length (extractUsageExamples readmeContent) \<le> 20 \<and>
   length (service_extractUsageExamples readmeContent) \<le> 20"
proof -
  have raw: "length (extractUsageExamples readmeContent) \<le> 20"
    by (simp add: extractUsageExamples_def MAX_EXAMPLES_def Let_def)
  have "length (service_extractUsageExamples readmeContent)
          = length (deduplicateExamples (extractUsageExamples readmeContent))"
    by (simp add: service_extractUsageExamples_def sortExamplesByRelevance_sort_key)
  also have "\<dots> \<le> length (extractUsageExamples readmeContent)"
    by (rule deduplicateExamples_length)
  finally show ?thesis using raw by simp
qed

section \<open>The entry points never raise\<close>

text \<open>
  C1: for every string both entry points return a value: the \<open>try\<close> block of
  \<open>cleanReadmeContent\<close> and that of \<open>extractUsageExamples\<close> end without an exception, so
  cleaning returns a string and extraction the list of the examples, also through
  \<open>ReadmeService\<close>. Should the \<open>try\<close> block raise, the handler of the cleaner returns the
  original text and the handler of the extractor the empty list, as it does for an
  argument that is not a string. For the empty string cleaning returns the empty string
  and extraction the empty list.
\<close>

theorem entry_points_total:
  "(\<exists>cleaned. cleanReadmeContent_try (JSString text) = Inr cleaned) \<and>
   (\<exists>cleaned. cleanReadmeContent (JSString text) = JSString cleaned) \<and>
   (\<exists>found. extractUsageExamples_try (JSString text) = Inr found) \<and>
   extractUsageExamples_entry (JSString text) = extractUsageExamples text \<and>
   service_extractUsageExamples_entry (JSString text) = service_extractUsageExamples text \<and>
   (case cleanReadmeContent_try v of
      Inl e \<Rightarrow> cleanReadmeContent v = cleanReadmeContent_catch v
    | Inr cleaned \<Rightarrow> cleanReadmeContent v = JSString cleaned) \<and>
   cleanReadmeContent_catch (JSString text) = JSString text \<and>
   (case extractUsageExamples_try v of
      Inl e \<Rightarrow> extractUsageExamples_entry v = []
    | Inr found \<Rightarrow> extractUsageExamples_entry v = found) \<and>
   extractUsageExamples_entry JSUndefined = [] \<and>
   cleanReadmeContent (JSString []) = JSString [] \<and>
   service_cleanReadmeContent (JSString []) = JSString [] \<and>
   extractUsageExamples_entry (JSString []) = [] \<and>
   service_extractUsageExamples_entry (JSString []) = []"
proof -
  have c1: "\<exists>cleaned. cleanReadmeContent_try (JSString text) = Inr cleaned"
    by (simp add: cleanReadmeContent_try_def truthy_def isString_def)
  then have c2: "\<exists>cleaned. cleanReadmeContent (JSString text) = JSString cleaned"
    by (auto simp: cleanReadmeContent_def)
  have e1: "extractUsageExamples_try (JSString text) = Inr (extractUsageExamples text)"
    by (simp add: extractUsageExamples_try_def)
  have e2: "extractUsageExamples_entry (JSString text) = extractUsageExamples text"
    by (simp add: extractUsageExamples_entry_def e1)
  have e3: "service_extractUsageExamples_entry (JSString text) = service_extractUsageExamples text"
    by (simp add: service_extractUsageExamples_entry_def service_extractUsageExamples_def e2)
  have h1: "case cleanReadmeContent_try v of
      Inl e \<Rightarrow> cleanReadmeContent v = cleanReadmeContent_catch v
    | Inr cleaned \<Rightarrow> cleanReadmeContent v = JSString cleaned"
    by (simp add: cleanReadmeContent_def split: sum.split)
  have h2: "cleanReadmeContent_catch (JSString text) = JSString text"
    by (simp add: cleanReadmeContent_catch_def truthy_def)
  have h3: "case extractUsageExamples_try v of
      Inl e \<Rightarrow> extractUsageExamples_entry v = []
    | Inr found \<Rightarrow> extractUsageExamples_entry v = found"
    by (simp add: extractUsageExamples_entry_def extractUsageExamples_catch_def split: sum.split)
  have u: "extractUsageExamples_entry JSUndefined = []"
    by (simp add: extractUsageExamples_entry_def extractUsageExamples_try_def
        extractUsageExamples_catch_def)
  have z1: "cleanReadmeContent (JSString []) = JSString []"
    by (simp add: cleanReadmeContent_def cleanReadmeContent_try_def truthy_def)
  have z2: "service_cleanReadmeContent (JSString []) = JSString []"
    by (simp add: service_cleanReadmeContent_def z1)
  have z3: "extractUsageExamples [] = []"
    by (simp add: eval_defs)
  have z4: "extractUsageExamples_entry (JSString []) = []"
    by (simp add: extractUsageExamples_entry_def extractUsageExamples_try_def z3)
  have z5: "service_extractUsageExamples_entry (JSString []) = []"
    by (simp add: service_extractUsageExamples_entry_def z4 deduplicateExamples_def
        sortExamplesByRelevance_def js_sort_def)
  from c1 c2 e1 e2 e3 h1 h2 h3 u z1 z2 z4 z5 show ?thesis by simp
qed

text \<open>
  A text that the cleaner changes, a number in place of the text (the cleaner's guard
  answers the empty string, the extractor raises and its handler answers the empty
  list), and a text of white space only.
\<close>

theorem entry_points_total_witness:
  "cleanReadmeContent (JSString (str ''  a   '')) = JSString (str ''a'') \<and>
   cleanReadmeContent_try (JSNumber 7) = Inr [] \<and>
   extractUsageExamples_try (JSNumber 7) = Inl TypeError \<and>
   extractUsageExamples_entry (JSNumber 7) = [] \<and>
   extractUsageExamples_entry (JSString ([32, 32, 32, 10, 10, 32, 32, 9, 32, 32, 10])) = []"
proof -
  have a: "cleanReadmeContent_try (JSString (str ''  a   '')) = Inr (str ''a'')"
    by (simp add: cleanReadmeContent_try_def truthy_def isString_def clean_defs eval_defs)
  have b: "cleanReadmeContent_try (JSNumber 7) = Inr []"
    by (simp add: cleanReadmeContent_try_def isString_def)
  have c: "extractUsageExamples_try (JSNumber 7) = Inl TypeError"
    by (simp add: extractUsageExamples_try_def)
  have d: "extractUsageExamples ([32, 32, 32, 10, 10, 32, 32, 9, 32, 32, 10]) = []"
    by (simp add: eval_defs)
  from entry_points_total [of "str ''  a   ''" "JSString (str ''  a   '')"] a
  have 1: "cleanReadmeContent (JSString (str ''  a   '')) = JSString (str ''a'')" by simp
  from entry_points_total [of "[]" "JSNumber 7"] c
  have 2: "extractUsageExamples_entry (JSNumber 7) = []" by simp
  from entry_points_total [of "[32, 32, 32, 10, 10, 32, 32, 9, 32, 32, 10]" JSNull] d
  have 3: "extractUsageExamples_entry (JSString ([32, 32, 32, 10, 10, 32, 32, 9, 32, 32, 10])) = []"
    by simp
  from 1 b c 2 3 show ?thesis by simp
qed

section \<open>The scan of the fenced blocks\<close>









lemma scanLine_examples:
  "examples (scanLine st l) = examples st \<or>
   (\<exists>st'. currentCodeBlock st' = currentCodeBlock st \<and>
          currentLanguage st' = currentLanguage st \<and>
          examples (scanLine st l) = examples st @ [blockExample st'] \<and>
          isLikelyUsageExample (currentCodeBlock st') (currentLanguage st') (currentSection st'))"
proof -
  define st1 where "st1 = (if isHeaderLine (js_trim l)
                then st\<lparr>currentSection := toLowerCase (stripHeaderMarks (js_trim l))\<rparr>
                else st)"
  have same: "currentCodeBlock st1 = currentCodeBlock st" "currentLanguage st1 = currentLanguage st"
    "examples st1 = examples st"
    by (simp_all add: st1_def)
  show ?thesis
  proof (cases "prefix fence (js_trim l) \<and> inCodeBlock st1 \<and>
      isLikelyUsageExample (currentCodeBlock st1) (currentLanguage st1) (currentSection st1)")
    case True
    then have "examples (scanLine st l) = examples st @ [blockExample st1]"
      using same by (simp add: scanLine_def Let_def st1_def)
    with True same show ?thesis by blast
  next
    case False
    then have "examples (scanLine st l) = examples st"
      using same by (auto simp: scanLine_def Let_def st1_def)
    then show ?thesis by simp
  qed
qed

lemma scanLine_language:
  "currentLanguage (scanLine st l) = currentLanguage st \<or>
   currentLanguage (scanLine st l) = extractLanguage (js_trim l)"
  by (auto simp: scanLine_def Let_def)


section \<open>The length of the code of an example\<close>

lemma isLikely_length:
  "isLikelyUsageExample c lang sec \<Longrightarrow> 10 \<le> length (js_trim c) \<and> length (js_trim c) \<le> 5000"
  by (auto simp: isLikelyUsageExample_def Let_def MIN_CODE_BLOCK_LENGTH_def
      MAX_CODE_BLOCK_LENGTH_def split: if_splits)

lemma scan_code_length:
  "\<forall>e \<in> set (examples st). 10 \<le> length (code e) \<and> length (code e) \<le> 5000 \<Longrightarrow>
   \<forall>e \<in> set (examples (foldl scanLine st ls)). 10 \<le> length (code e) \<and> length (code e) \<le> 5000"
proof (induction ls arbitrary: st)
  case Nil
  then show ?case by simp
next
  case (Cons l ls)
  have "\<forall>e \<in> set (examples (scanLine st l)). 10 \<le> length (code e) \<and> length (code e) \<le> 5000"
    using scanLine_examples [of st l] Cons.prems isLikely_length
    by (auto simp: blockExample_def)
  then show ?case using Cons.IH [of "scanLine st l"] by simp
qed

lemma block_code_length:
  "e \<in> set (extractBlockExamples readmeContent) \<Longrightarrow>
   10 \<le> length (code e) \<and> length (code e) \<le> 5000"
  using scan_code_length [of initialScan "js_split 10 readmeContent"]
  by (simp add: extractBlockExamples_def initialScan_def)

lemma js_includes_Nil: "js_includes [] sub \<longleftrightarrow> sub = []"
  by simp

lemma isSimple_nonempty: "isSimpleUsageExample c \<Longrightarrow> c \<noteq> []"
  by (auto simp: isSimpleUsageExample_def callPatternAt_def str_def)

lemma inline_code_length:
  "e \<in> set (extractInlineExamples readmeContent) \<Longrightarrow> 1 \<le> length (code e)"
  using isSimple_nonempty
  by (auto simp: extractInlineExamples_def inlineExample_def Suc_le_eq)

lemma service_subset:
  "set (service_extractUsageExamples readmeContent)
     \<subseteq> set (extractBlockExamples readmeContent) \<union> set (extractInlineExamples readmeContent)"
proof -
  have "set (service_extractUsageExamples readmeContent)
          \<subseteq> set (extractUsageExamples readmeContent)"
    using dedupLoop_subset [of "{}" "extractUsageExamples readmeContent"]
    by (simp add: service_extractUsageExamples_def sortExamplesByRelevance_sort_key
        deduplicateExamples_def)
  also have "\<dots> \<subseteq> set (extractBlockExamples readmeContent @ extractInlineExamples readmeContent)"
    unfolding extractUsageExamples_def Let_def by (rule set_take_subset)
  finally show ?thesis by simp
qed

text \<open>
  C7, amended: every example that comes from a fenced block has a code of 10 to 5000 code
  units. An example that comes from an inline code span passes no length check: its code
  is only known not to be empty. Every example that the pipeline returns is of one of
  the two kinds.
\<close>

theorem code_length_bounds:
  "(\<forall>e \<in> set (extractBlockExamples readmeContent).
      10 \<le> length (code e) \<and> length (code e) \<le> 5000) \<and>
   (\<forall>e \<in> set (extractInlineExamples readmeContent). 1 \<le> length (code e)) \<and>
   (\<forall>e \<in> set (service_extractUsageExamples readmeContent).
      (e \<in> set (extractBlockExamples readmeContent) \<and>
         10 \<le> length (code e) \<and> length (code e) \<le> 5000) \<or>
      (e \<in> set (extractInlineExamples readmeContent) \<and> 1 \<le> length (code e)))"
  using block_code_length [of _ readmeContent] inline_code_length [of _ readmeContent]
        service_subset [of readmeContent]
  by blast

text \<open>An inline span of three units and a block of fifteen, both returned.\<close>

theorem code_length_bounds_witness:
  "map (\<lambda>e. length (code e))
     (service_extractUsageExamples
        ([backtick] @ str ''a=1'' @ [backtick] @ [10] @ fence @ [10] @ str ''import requests'' @ [10]
           @ fence)) = [15, 3] \<and>
   map (\<lambda>e. length (code e))
     (extractBlockExamples
        ([backtick] @ str ''a=1'' @ [backtick] @ [10] @ fence @ [10] @ str ''import requests'' @ [10]
           @ fence)) = [15] \<and>
   list_all (\<lambda>e. 10 \<le> length (code e) \<and> length (code e) \<le> 5000)
     (extractBlockExamples
        ([backtick] @ str ''a=1'' @ [backtick] @ [10] @ fence @ [10] @ str ''import requests'' @ [10]
           @ fence))"
proof -
  let ?w = "[backtick] @ str ''a=1'' @ [backtick] @ [10] @ fence @ [10] @ str ''import requests'' @ [10]
           @ fence"
  have a: "map (\<lambda>e. length (code e)) (service_extractUsageExamples ?w) = [15, 3]"
    by (simp add: eval_defs)
  have b: "map (\<lambda>e. length (code e)) (extractBlockExamples ?w) = [15]"
    by (simp add: eval_defs)
  have c: "list_all (\<lambda>e. 10 \<le> length (code e) \<and> length (code e) \<le> 5000) (extractBlockExamples ?w)"
    using code_length_bounds [of ?w] by (simp add: list_all_iff)
  from a b c show ?thesis by blast
qed

text \<open>
  C7 as stated fails: the inline span \<open>a=1\<close> is returned as an example, and its code has
  three code units.
\<close>

theorem inline_span_below_minimum:
  "\<not> (\<forall>e \<in> set (service_extractUsageExamples ([backtick] @ str ''a=1'' @ [backtick])).
        10 \<le> length (code e) \<and> length (code e) \<le> 5000)"
proof -
  have "service_extractUsageExamples ([backtick] @ str ''a=1'' @ [backtick])
          = [inlineExample (str ''a=1'')]"
    by (simp add: eval_defs)
  then have "set (service_extractUsageExamples ([backtick] @ str ''a=1'' @ [backtick]))
          = {inlineExample (str ''a=1'')}"
    by simp
  then show ?thesis
    unfolding Ball_def by (simp add: inlineExample_def str_def)
qed

section \<open>The language of an example\<close>

lemma lowerUnit_idem: "lowerUnit (lowerUnit c) = lowerUnit c"
  by (simp add: lowerUnit_def)

lemma toLowerCase_idem: "toLowerCase (toLowerCase s) = toLowerCase s"
  by (simp add: toLowerCase_def lowerUnit_idem)

lemma extractLanguage_lower: "toLowerCase (extractLanguage line) = extractLanguage line"
proof -
  have "toLowerCase (str ''python'') = str ''python''"
    by (simp add: toLowerCase_def lowerUnit_def str_def)
  then show ?thesis by (simp add: extractLanguage_def toLowerCase_idem)
qed

lemma blockExample_language:
  assumes "toLowerCase (currentLanguage st) = currentLanguage st"
    and "isLikelyUsageExample (currentCodeBlock st) (currentLanguage st) (currentSection st)"
  shows "language (blockExample st) \<in> set currentLanguages"
proof (cases "currentLanguage st = []")
  case True
  then show ?thesis by (simp add: blockExample_def currentLanguages_def)
next
  case False
  with assms(2) have "isRelevantLanguage (currentLanguage st)"
    by (auto simp: isLikelyUsageExample_def Let_def split: if_splits)
  with assms(1) False show ?thesis
    by (auto simp: isRelevantLanguage_def blockExample_def currentLanguages_def)
qed

lemma scan_language:
  "toLowerCase (currentLanguage st) = currentLanguage st \<Longrightarrow>
   \<forall>e \<in> set (examples st). language e \<in> set currentLanguages \<Longrightarrow>
   \<forall>e \<in> set (examples (foldl scanLine st ls)). language e \<in> set currentLanguages"
proof (induction ls arbitrary: st)
  case Nil
  then show ?case by simp
next
  case (Cons l ls)
  have low: "toLowerCase (currentLanguage (scanLine st l)) = currentLanguage (scanLine st l)"
    using scanLine_language [of st l] Cons.prems(1) extractLanguage_lower by auto
  have "\<forall>e \<in> set (examples (scanLine st l)). language e \<in> set currentLanguages"
  proof (rule disjE [OF scanLine_examples [of st l]])
    assume "examples (scanLine st l) = examples st"
    with Cons.prems(2) show ?thesis by simp
  next
    assume "\<exists>st'. currentCodeBlock st' = currentCodeBlock st \<and>
          currentLanguage st' = currentLanguage st \<and>
          examples (scanLine st l) = examples st @ [blockExample st'] \<and>
          isLikelyUsageExample (currentCodeBlock st') (currentLanguage st') (currentSection st')"
    then obtain st' where lang: "currentLanguage st' = currentLanguage st"
      and ex: "examples (scanLine st l) = examples st @ [blockExample st']"
      and lik: "isLikelyUsageExample (currentCodeBlock st') (currentLanguage st') (currentSection st')"
      by blast
    from lang Cons.prems(1) have "toLowerCase (currentLanguage st') = currentLanguage st'" by simp
    from blockExample_language [OF this lik] ex Cons.prems(2) show ?thesis by simp
  qed
  with low show ?case using Cons.IH [of "scanLine st l"] by simp
qed

lemma block_language:
  "e \<in> set (extractBlockExamples readmeContent) \<Longrightarrow> language e \<in> set currentLanguages"
  using scan_language [of initialScan "js_split 10 readmeContent"]
  by (simp add: extractBlockExamples_def initialScan_def toLowerCase_def)

lemma inline_language:
  "e \<in> set (extractInlineExamples readmeContent) \<Longrightarrow> language e = str ''python''"
  by (auto simp: extractInlineExamples_def inlineExample_def)

text \<open>
  C5, amended: every example that the pipeline returns has one of the languages
  \<open>python\<close>, \<open>py\<close>, \<open>bash\<close>, \<open>shell\<close>, \<open>sh\<close> and \<open>text\<close>. \<open>ExampleExtractor.extractLanguage\<close>
  lower-cases the word behind the backticks and maps no alias (\<open>PY\<close> gives \<open>py\<close>, \<open>yml\<close>
  stays \<open>yml\<close>); a fence that declares no language gives \<open>python\<close>. The alias table
  belongs to \<open>ReadmeParser.extractLanguage\<close>, which maps each of its keys to the
  canonical name.
\<close>

theorem language_of_examples:
  "(\<forall>e \<in> set (service_extractUsageExamples readmeContent).
      language e \<in> set currentLanguages) \<and>
   extractLanguage line =
     (if prefix fence line \<and> takeWhile isWordChar (drop 3 line) \<noteq> []
      then toLowerCase (takeWhile isWordChar (drop 3 line)) else str ''python'') \<and>
   extractLanguage fence = str ''python'' \<and>
   extractLanguage (fence @ str ''PY'') = str ''py'' \<and>
   extractLanguage (fence @ str ''yml'') = str ''yml'' \<and>
   list_all (\<lambda>(alias, canonical).
       parser_extractLanguage (fence @ alias) = LangString canonical) languageMap"
proof -
  have a: "\<forall>e \<in> set (service_extractUsageExamples readmeContent).
      language e \<in> set currentLanguages"
  proof
    fix e assume "e \<in> set (service_extractUsageExamples readmeContent)"
    with service_subset [of readmeContent]
    have "e \<in> set (extractBlockExamples readmeContent) \<or>
          e \<in> set (extractInlineExamples readmeContent)" by auto
    then show "language e \<in> set currentLanguages"
      using block_language [of e readmeContent] inline_language [of e readmeContent]
      by (auto simp: currentLanguages_def)
  qed
  have b: "extractLanguage fence = str ''python''"
    by (simp add: eval_defs)
  have c: "extractLanguage (fence @ str ''PY'') = str ''py''"
    by (simp add: eval_defs)
  have d: "extractLanguage (fence @ str ''yml'') = str ''yml''"
    by (simp add: eval_defs)
  have e: "list_all (\<lambda>(alias, canonical).
       parser_extractLanguage (fence @ alias) = LangString canonical) languageMap"
    by (simp add: parser_defs eval_defs)
  from a b c d e show ?thesis by (simp add: extractLanguage_def)
qed

text \<open>A block tagged \<open>py\<close>, returned with that language, and the inline span around it.\<close>

theorem language_of_examples_witness:
  "map language (service_extractUsageExamples
     (fence @ str ''py'' @ [10] @ str ''import foo'' @ [10] @ fence)) = [str ''py'', str ''python''] \<and>
   list_all (\<lambda>e. language e \<in> set currentLanguages)
     (service_extractUsageExamples (fence @ str ''py'' @ [10] @ str ''import foo'' @ [10] @ fence))"
proof -
  let ?w = "fence @ str ''py'' @ [10] @ str ''import foo'' @ [10] @ fence"
  have a: "map language (service_extractUsageExamples ?w) = [str ''py'', str ''python'']"
    by (simp add: eval_defs)
  have b: "list_all (\<lambda>e. language e \<in> set currentLanguages) (service_extractUsageExamples ?w)"
    using language_of_examples [of ?w "[]"] by (simp add: list_all_iff)
  from a b show ?thesis by blast
qed

text \<open>
  C5 as stated fails: the block tagged \<open>py\<close> is returned with the language \<open>py\<close>, an alias
  that the claim has mapped to \<open>python\<close> before storage.
\<close>

theorem alias_not_mapped:
  "\<not> (\<forall>e \<in> set (service_extractUsageExamples
              (fence @ str ''py'' @ [10] @ str ''import foo'' @ [10] @ fence)).
        language e \<notin> set aliasNames)"
proof -
  have "map language (service_extractUsageExamples
     (fence @ str ''py'' @ [10] @ str ''import foo'' @ [10] @ fence)) = [str ''py'', str ''python'']"
    by (simp add: eval_defs)
  then have "str ''py'' \<in> language ` set (service_extractUsageExamples
     (fence @ str ''py'' @ [10] @ str ''import foo'' @ [10] @ fence))"
    unfolding set_map [symmetric] by simp
  moreover have "str ''py'' \<in> set aliasNames"
    by (simp add: aliasNames_def)
  ultimately show ?thesis by auto
qed

section \<open>Install commands\<close>

text \<open>
  C2, amended: the rule that accepts a \<open>bash\<close> block for its install command belongs to
  the classifier of \<open>ReadmeParser\<close>, which applies it after its own output check: a
  \<open>bash\<close> block whose trimmed length lies in 10 to 5000, which contains \<open>pip install\<close> or
  \<open>pipx install\<close> and which \<open>ReadmeParser.isOutputOnly\<close> does not take for output is
  accepted, whatever the title; there a text that is only a \<open>bash\<close> fence around
  \<open>pip install foo\<close> yields exactly one example, of language \<open>bash\<close>. The classifier of
  \<open>ExampleExtractor\<close> has no such rule and rejects every block that holds none of its
  ten code keywords.
\<close>

theorem install_command_acceptance:
  "(10 \<le> length (js_trim c) \<and> length (js_trim c) \<le> 5000 \<and>
    (js_includes c (str ''pip install'') \<or> js_includes c (str ''pipx install'')) \<and>
    \<not> parser_isOutputOnly c
      \<longrightarrow> parser_isLikelyUsageExample c (LangString (str ''bash'')) t) \<and>
   (isOutputOnly (js_trim c) \<longrightarrow> \<not> isLikelyUsageExample c lang section) \<and>
   parser_extractUsageExamples (fence @ str ''bash'' @ [10] @ str ''pip install foo'' @ [10] @ fence)
     = [\<lparr>title = str ''Code Example'', description = None, code = str ''pip install foo'',
         language = str ''bash''\<rparr>]"
proof -
  have a: "10 \<le> length (js_trim c) \<and> length (js_trim c) \<le> 5000 \<and>
    (js_includes c (str ''pip install'') \<or> js_includes c (str ''pipx install'')) \<and>
    \<not> parser_isOutputOnly c
      \<longrightarrow> parser_isLikelyUsageExample c (LangString (str ''bash'')) t"
    by (simp add: parser_isLikelyUsageExample_def str_def)
  have b: "isOutputOnly (js_trim c) \<longrightarrow> \<not> isLikelyUsageExample c lang section"
    by (simp add: isLikelyUsageExample_def Let_def)
  have c: "parser_extractUsageExamples (fence @ str ''bash'' @ [10] @ str ''pip install foo'' @ [10] @ fence)
     = [\<lparr>title = str ''Code Example'', description = None, code = str ''pip install foo'',
         language = str ''bash''\<rparr>]"
    by (simp add: parser_defs eval_defs)
  from a b c show ?thesis by blast
qed

text \<open>The block \<open>pip install foo\<close>: accepted by the one classifier, rejected by the other.\<close>

theorem install_command_acceptance_witness:
  "parser_isLikelyUsageExample (str ''pip install foo'' @ [10]) (LangString (str ''bash'')) [] \<and>
   \<not> parser_isOutputOnly (str ''pip install foo'' @ [10]) \<and>
   isOutputOnly (js_trim (str ''pip install foo'' @ [10])) \<and>
   \<not> isLikelyUsageExample (str ''pip install foo'' @ [10]) (str ''bash'') (str ''installation'')"
proof -
  let ?c = "str ''pip install foo'' @ [10]"
  have len: "10 \<le> length (js_trim ?c) \<and> length (js_trim ?c) \<le> 5000"
    by (simp add: eval_defs)
  have inc: "js_includes ?c (str ''pip install'')"
    by (simp add: eval_defs)
  have out: "\<not> parser_isOutputOnly ?c"
    by (simp add: parser_defs eval_defs)
  have cur: "isOutputOnly (js_trim ?c)"
    by (simp add: eval_defs)
  from install_command_acceptance [of ?c "[]" "str ''bash''" "str ''installation''"] len inc out cur
  show ?thesis by blast
qed

text \<open>
  C2 as stated fails: for the text that is only a \<open>bash\<close> fence around \<open>pip install foo\<close>
  the pipeline returns no example, and the classifier rejects the block.
\<close>

theorem install_command_rejected:
  "service_extractUsageExamples (fence @ str ''bash'' @ [10] @ str ''pip install foo'' @ [10] @ fence) = [] \<and>
   \<not> isLikelyUsageExample (str ''pip install foo'' @ [10]) (str ''bash'') []"
proof -
  have a: "service_extractUsageExamples (fence @ str ''bash'' @ [10] @ str ''pip install foo'' @ [10] @ fence) = []"
    by (simp add: eval_defs)
  have b: "\<not> isLikelyUsageExample (str ''pip install foo'' @ [10]) (str ''bash'') []"
    by (simp add: eval_defs)
  from a b show ?thesis by blast
qed

section \<open>The steps of the cleaner\<close>


subsection \<open>Texts without markup units\<close>









subsection \<open>The collapse of newline runs\<close>














subsection \<open>Trailing blanks and trimming\<close>















subsection \<open>Cleaning a text without markup units\<close>






subsection \<open>Comments and tags\<close>








section \<open>Cleaning twice\<close>




end
